theory Spec2Isabelle
  imports Main
begin

section \<open>Errors, the filesystem and the collaborators\<close>

text \<open>
  Go's \<open>error\<close> values. \<open>Errorf\<close> is \<open>fmt.Errorf\<close> with its formatted message,
  \<open>Wrap err msg\<close> is \<open>errors.Wrap(err, msg)\<close>, \<open>OSError\<close> is an error produced by the
  operating system, the SQL engine or another collaborator, \<open>ErrNotExist\<close> is the kind
  of error \<open>os.IsNotExist\<close> recognises, and \<open>CloudRestoreError r\<close> is the backup
  collaborator's restore error, \<open>r\<close> being the answer of its \<open>IsRetriable()\<close>.
  A nil error is \<open>None\<close>.
\<close>

datatype error =
    Errorf string
  | Wrap error string
  | OSError string
  | ErrNotExist string
  | CloudRestoreError (IsRetriable: bool)



text \<open>
  \<open>fmt.Sprintf\<close> restricted to the verb \<open>%v\<close> applied to strings, the only use the
  sources make of it: each \<open>%v\<close> is replaced by the next argument.
\<close>

fun Sprintf :: "string \<Rightarrow> string list \<Rightarrow> string" where
  "Sprintf [] args = []"
| "Sprintf [c] args = [c]"
| "Sprintf (c # d # fmt) args =
     (if c = CHR ''%'' \<and> d = CHR ''v''
      then (case args of [] \<Rightarrow> ''%!v(MISSING)'' @ Sprintf fmt []
            | a # as \<Rightarrow> a @ Sprintf fmt as)
      else c # Sprintf (d # fmt) args)"

text \<open>
  The operations with an effect outside the process, in the order they are performed,
  are recorded in \<open>calls\<close>; the reading operations (\<open>Stat\<close>, \<open>ReadF\<close>, \<open>OpenDB\<close>)
  appear only as arguments of the fault oracle below.
\<close>

datatype call =
    Stat string
  | ReadF string
  | OpenDB
  | Initdb "string list"
  | AppendTo string string
  | Startup
  | Shutdown
  | Exec string
  | CheckTarget
  | RestoreBackup
  | RemoveDir string

datatype logentry = LogInfo string | LogError error string

type_synonym fs = "string \<rightharpoonup> string"

record world =
  files :: fs
  calls :: "call list"
  logged :: "logentry list"

datatype sqldb = SuperUserDB

record Instance =
  PgData :: string
  StartupOptions :: "string list"
  Port :: int
  ApplicationDatabase :: string

text \<open>
  \<open>InitInfo\<close> of \<open>pkg/management/postgres\<close>. The last two fields are those the
  restore command fills in beside \<open>ClusterName\<close> and \<open>PgData\<close>.
\<close>

record InitInfo =
  PgData :: string
  PasswordFile :: string
  ApplicationDatabase :: string
  ApplicationUser :: string
  ApplicationPasswordFile :: string
  HBARulesFile :: string
  PostgreSQLConfigFile :: string
  ParentNode :: string
  ClusterName :: string
  Namespace :: string
  PgWal :: string

text \<open>
  What the program does not decide itself. \<open>fault h c\<close> says whether the primitive
  operation \<open>c\<close> fails after the history \<open>h\<close> of calls, and with which error.
  The external programs and the collaborators of the restore path are arbitrary
  functions of the world; \<open>RemoveDirectory\<close> is \<open>fileutils.RemoveDirectory\<close> of the
  machinery library. \<open>path_Join\<close>, \<open>QuoteIdentifier\<close> and \<open>QuoteLiteral\<close> stand
  for Go's \<open>path.Join\<close> and for \<open>pq.QuoteIdentifier\<close> and \<open>pq.QuoteLiteral\<close>.
\<close>

record env =
  fault :: "call list \<Rightarrow> call \<Rightarrow> error option"
  initdb :: "string list \<Rightarrow> world \<Rightarrow> error option \<times> fs"
  GetMajorVersion :: "string \<Rightarrow> world \<Rightarrow> error + int"
  CheckTargetDataDirectory :: "InitInfo \<Rightarrow> world \<Rightarrow> error option \<times> fs"
  Restore :: "InitInfo \<Rightarrow> world \<Rightarrow> error option \<times> fs"
  RemoveDirectory :: "string \<Rightarrow> world \<Rightarrow> error option \<times> fs"
  path_Join :: "string \<Rightarrow> string \<Rightarrow> string"
  QuoteIdentifier :: "string \<Rightarrow> string"
  QuoteLiteral :: "string \<Rightarrow> string"

definition log_Info :: "string \<Rightarrow> world \<Rightarrow> world" where
  "log_Info msg w = w\<lparr>logged := logged w @ [LogInfo msg]\<rparr>"

definition log_Error :: "error \<Rightarrow> string \<Rightarrow> world \<Rightarrow> world" where
  "log_Error err msg w = w\<lparr>logged := logged w @ [LogError err msg]\<rparr>"

definition record_call :: "call \<Rightarrow> world \<Rightarrow> world" where
  "record_call c w = w\<lparr>calls := calls w @ [c]\<rparr>"

subsection \<open>File helpers\<close>

text \<open>
  Modelled from the spec: \<open>fileutils.FileExists\<close>, \<open>fileutils.ReadFile\<close>,
  \<open>fileutils.AppendStringToFile\<close> and \<open>fileutils.AppendFile\<close>, which are not
  among the sources. They are the existence check, the read and the appends (never
  overwrites) that the specification names as primitives. A call that fails leaves
  the files as they were.
\<close>

definition FileExists :: "env \<Rightarrow> string \<Rightarrow> world \<Rightarrow> error + bool" where
  "FileExists E fileName w =
     (case fault E (calls w) (Stat fileName) of
        Some err \<Rightarrow> Inl err
      | None \<Rightarrow> Inr (files w fileName \<noteq> None))"

definition ReadFile :: "env \<Rightarrow> string \<Rightarrow> world \<Rightarrow> error + string" where
  "ReadFile E fileName w =
     (case fault E (calls w) (ReadF fileName) of
        Some err \<Rightarrow> Inl err
      | None \<Rightarrow> (case files w fileName of
                   None \<Rightarrow> Inl (ErrNotExist fileName)
                 | Some content \<Rightarrow> Inr content))"

definition AppendStringToFile :: "env \<Rightarrow> string \<Rightarrow> string \<Rightarrow> world \<Rightarrow> error option \<times> world" where
  "AppendStringToFile E targetFile content w =
     (case fault E (calls w) (AppendTo targetFile content) of
        Some err \<Rightarrow> (Some err, record_call (AppendTo targetFile content) w)
      | None \<Rightarrow>
          (None, record_call (AppendTo targetFile content)
             (w\<lparr>files := (files w)(targetFile \<mapsto>
                   (case files w targetFile of None \<Rightarrow> content | Some old \<Rightarrow> old @ content))\<rparr>)))"

definition AppendFile :: "env \<Rightarrow> string \<Rightarrow> string \<Rightarrow> world \<Rightarrow> error option \<times> world" where
  "AppendFile E targetFile sourceFile w =
     (case ReadFile E sourceFile w of
        Inl err \<Rightarrow> (Some err, w)
      | Inr content \<Rightarrow> AppendStringToFile E targetFile content w)"

section \<open>Bootstrap: \<open>pkg/management/postgres/initdb.go\<close>\<close>

subsection \<open>VerifyConfiguration\<close>

definition VerifyConfiguration :: "env \<Rightarrow> InitInfo \<Rightarrow> world \<Rightarrow> error option" where
  "VerifyConfiguration E info w =
     (case FileExists E (PasswordFile info) w of
        Inl err \<Rightarrow> Some err
      | Inr passwordFileExists \<Rightarrow>
     if \<not> passwordFileExists
     then Some (Errorf (Sprintf ''superuser password file doesn't exist (%v)'' [PasswordFile info]))
     else
     (case FileExists E (ApplicationPasswordFile info) w of
        Inl err \<Rightarrow> Some err
      | Inr applicationPasswordFileExists \<Rightarrow>
     if \<not> applicationPasswordFileExists
     then Some (Errorf (Sprintf ''application user's password file doesn't exist (%v)''
                  [PasswordFile info]))
     else
     (case FileExists E (InitInfo.PgData info) w of
        Inl err \<Rightarrow> Some err
      | Inr pgdataExists \<Rightarrow>
     if pgdataExists
     then Some (Errorf ''PGData directories already exist'')
     else
     (case (if length (HBARulesFile info) \<noteq> 0
            then (case FileExists E (HBARulesFile info) w of
                    Inl err \<Rightarrow> Some err
                  | Inr hbaRulesFileExists \<Rightarrow>
                      if \<not> hbaRulesFileExists
                      then Some (Errorf (Sprintf ''hba rules file doesn't exist (%v)''
                                   [HBARulesFile info]))
                      else None)
            else None) of
        Some err \<Rightarrow> Some err
      | None \<Rightarrow>
     (case (if length (PostgreSQLConfigFile info) \<noteq> 0
            then (case FileExists E (PostgreSQLConfigFile info) w of
                    Inl err \<Rightarrow> Some err
                  | Inr postgresConfigFileExists \<Rightarrow>
                      if \<not> postgresConfigFileExists
                      then Some (Errorf (Sprintf ''postgresql config file doesn't exist (%v)''
                                   [HBARulesFile info]))
                      else None)
            else None) of
        Some err \<Rightarrow> Some err
      | None \<Rightarrow>
     if length (ApplicationUser info) = 0
     then Some (Errorf ''the name of the application user is empty'')
     else if length (InitInfo.ApplicationDatabase info) = 0
     then Some (Errorf ''the name of the application database is empty'')
     else None)))))"

subsection \<open>CreateDataDirectory\<close>

text \<open>
  \<open>exec.Command("initdb", options...).CombinedOutput()\<close>: the run is recorded, and
  the external program decides the error and the files it leaves.
\<close>

definition run_initdb :: "env \<Rightarrow> string list \<Rightarrow> world \<Rightarrow> error option \<times> world" where
  "run_initdb E options w =
     (case initdb E options w of
        (err, fs') \<Rightarrow> (err, record_call (Initdb options) (w\<lparr>files := fs'\<rparr>)))"

definition archive_stanza :: string where
  "archive_stanza =
     ''archive_mode = on\<newline>archive_command = '/controller/manager wal-archive %p'' @ [CHR 0x27]"

definition initdb_options :: "InitInfo \<Rightarrow> string list" where
  "initdb_options info =
     [''--username'', ''postgres'', ''--pwfile'', PasswordFile info, ''-D'', InitInfo.PgData info]"

definition CreateDataDirectory :: "env \<Rightarrow> InitInfo \<Rightarrow> world \<Rightarrow> error option \<times> world" where
  "CreateDataDirectory E info w0 =
     (let w = log_Info ''Creating new data directory'' w0;
          options = initdb_options info
      in case run_initdb E options w of
        (Some err, w1) \<Rightarrow>
          (Some (Wrap err ''Error while creating the PostgreSQL instance''),
           log_Info ''initdb output'' w1)
      | (None, w1) \<Rightarrow>
     (case (if length (HBARulesFile info) \<noteq> 0
            then AppendFile E (path_Join E (InitInfo.PgData info) ''pg_hba.conf'')
                   (HBARulesFile info) w1
            else (None, w1)) of
        (Some err, w2) \<Rightarrow>
          (Some (Wrap err ''appending to pg_hba.conf file resulted in an error''), w2)
      | (None, w2) \<Rightarrow>
     (case (if length (PostgreSQLConfigFile info) \<noteq> 0
            then AppendFile E (path_Join E (InitInfo.PgData info) ''postgresql.conf'')
                   (PostgreSQLConfigFile info) w2
            else (None, w2)) of
        (Some err, w3) \<Rightarrow>
          (Some (Wrap err ''appending to postgresql.conf file resulted in an error''), w3)
      | (None, w3) \<Rightarrow>
     (case AppendStringToFile E (path_Join E (InitInfo.PgData info) ''postgresql.conf'')
             archive_stanza w3 of
        (Some err, w4) \<Rightarrow>
          (Some (Wrap err ''appending to postgresql.conf file resulted in an error''), w4)
      | (None, w4) \<Rightarrow> (None, w4)))))"

subsection \<open>The transient instance and its SQL handle\<close>

definition GetInstance :: "InitInfo \<Rightarrow> Instance" where
  "GetInstance info =
     \<lparr> Instance.PgData = InitInfo.PgData info,
       StartupOptions = [''listen_addresses='127.0.0.1'' @ [CHR 0x27]],
       Port = 5432,
       Instance.ApplicationDatabase = InitInfo.ApplicationDatabase info \<rparr>"

text \<open>
  Modelled from the spec: \<open>Instance.WithActiveInstance\<close> and
  \<open>Instance.GetSuperUserDB\<close>, which are not among the sources. The runner starts the
  engine; if the start fails the callback is never invoked and the start's error is
  returned; otherwise the engine is stopped on every way out of the callback and the
  callback's result is returned. The handle is the superuser session of that instance.
\<close>

definition WithActiveInstance ::
  "env \<Rightarrow> Instance \<Rightarrow> (world \<Rightarrow> error option \<times> world) \<Rightarrow> world \<Rightarrow> error option \<times> world" where
  "WithActiveInstance E instance inner w =
     (case fault E (calls w) Startup of
        Some err \<Rightarrow> (Some err, record_call Startup w)
      | None \<Rightarrow>
          (case inner (record_call Startup w) of
             (result, w') \<Rightarrow> (result, record_call Shutdown w')))"

definition GetSuperUserDB :: "env \<Rightarrow> Instance \<Rightarrow> world \<Rightarrow> error + sqldb" where
  "GetSuperUserDB E instance w =
     (case fault E (calls w) OpenDB of
        Some err \<Rightarrow> Inl err
      | None \<Rightarrow> Inr SuperUserDB)"

text \<open>\<open>db.Exec(query)\<close>: the statement is issued, and the engine accepts or rejects it.\<close>

definition db_Exec :: "env \<Rightarrow> sqldb \<Rightarrow> string \<Rightarrow> world \<Rightarrow> error option \<times> world" where
  "db_Exec E db query w = (fault E (calls w) (Exec query), record_call (Exec query) w)"

subsection \<open>ConfigureApplicationEnvironment and ConfigureReplica\<close>

definition ConfigureApplicationEnvironment ::
  "env \<Rightarrow> InitInfo \<Rightarrow> sqldb \<Rightarrow> world \<Rightarrow> error option \<times> world" where
  "ConfigureApplicationEnvironment E info db w =
     (case db_Exec E db (Sprintf ''CREATE USER %v''
                           [QuoteIdentifier E (ApplicationUser info)]) w of
        (Some err, w1) \<Rightarrow> (Some err, w1)
      | (None, w1) \<Rightarrow>
     (case ReadFile E (ApplicationPasswordFile info) w1 of
        Inl err \<Rightarrow> (Some err, w1)
      | Inr ApplicationPassword \<Rightarrow>
     (case db_Exec E db (Sprintf ''ALTER USER %v PASSWORD %v''
                           [QuoteIdentifier E (ApplicationUser info),
                            QuoteLiteral E ApplicationPassword]) w1 of
        (Some err, w2) \<Rightarrow> (Some err, w2)
      | (None, w2) \<Rightarrow>
     (case db_Exec E db (Sprintf ''CREATE DATABASE %v OWNER %v''
                           [QuoteIdentifier E (InitInfo.ApplicationDatabase info),
                            QuoteIdentifier E (ApplicationUser info)]) w2 of
        (Some err, w3) \<Rightarrow> (Some err, w3)
      | (None, w3) \<Rightarrow>
     (case db_Exec E db (Sprintf ''ALTER SYSTEM SET cluster_name TO %v''
                           [QuoteIdentifier E (ClusterName info)]) w3 of
        (Some err, w4) \<Rightarrow> (Some err, w4)
      | (None, w4) \<Rightarrow> (None, w4))))))"

definition ConfigureReplica :: "env \<Rightarrow> InitInfo \<Rightarrow> sqldb \<Rightarrow> world \<Rightarrow> error option \<times> world" where
  "ConfigureReplica E info db w =
     (let primaryConnInfo = Sprintf ''host=%v user=postgres dbname=%v''
                              [ParentNode info, ''postgres'']
      in case db_Exec E db (Sprintf ''ALTER SYSTEM SET primary_conninfo TO %v''
                              [QuoteLiteral E primaryConnInfo]) w of
        (Some err, w1) \<Rightarrow> (Some err, w1)
      | (None, w1) \<Rightarrow>
     (case db_Exec E db (''ALTER SYSTEM SET recovery_target_timeline TO 'latest'' @ [CHR 0x27]) w1 of
        (Some err, w2) \<Rightarrow> (Some err, w2)
      | (None, w2) \<Rightarrow> (None, w2)))"

subsection \<open>Bootstrap\<close>

definition Bootstrap :: "env \<Rightarrow> InitInfo \<Rightarrow> world \<Rightarrow> error option \<times> world" where
  "Bootstrap E info w =
     (case CreateDataDirectory E info w of
        (Some err, w1) \<Rightarrow> (Some err, w1)
      | (None, w1) \<Rightarrow>
     (let instance = GetInstance info
      in case GetMajorVersion E (Instance.PgData instance) w1 of
        Inl err \<Rightarrow> (None, w1)
      | Inr majorVersion \<Rightarrow>
          WithActiveInstance E instance
            (\<lambda>w2. case GetSuperUserDB E instance w2 of
                Inl err \<Rightarrow> (None, w2)
              | Inr db \<Rightarrow>
                  (case ConfigureApplicationEnvironment E info db w2 of
                     (Some err, w3) \<Rightarrow> (None, w3)
                   | (None, w3) \<Rightarrow>
                       if majorVersion \<ge> 12
                       then ConfigureReplica E info db w3
                       else (None, w3)))
            w1))"

section \<open>Restore: \<open>internal/cmd/manager/instance/restore/cmd.go\<close>\<close>






section \<open>The validation rules of the specification\<close>

text \<open>
  The seven checks of the configuration validator, in the order the specification
  lists them. \<open>violation\<close> is the error a rule is reported with when it is violated
  (an existence check that itself fails counts as a violation, with the error of the
  check), and \<open>Validate\<close> is the first violation in that order.
\<close>

datatype rule =
    SuperuserPasswordFileExists
  | ApplicationPasswordFileExists
  | DataDirectoryAbsent
  | AccessRulesFileExists
  | ExtraConfigFileExists
  | ApplicationUserNonEmpty
  | ApplicationDatabaseNonEmpty

definition validation_rules :: "rule list" where
  "validation_rules =
     [SuperuserPasswordFileExists, ApplicationPasswordFileExists, DataDirectoryAbsent,
      AccessRulesFileExists, ExtraConfigFileExists, ApplicationUserNonEmpty,
      ApplicationDatabaseNonEmpty]"

fun must_exist :: "error + bool \<Rightarrow> error \<Rightarrow> error option" where
  "must_exist (Inl err) missing = Some err"
| "must_exist (Inr True) missing = None"
| "must_exist (Inr False) missing = Some missing"

fun must_not_exist :: "error + bool \<Rightarrow> error \<Rightarrow> error option" where
  "must_not_exist (Inl err) present = Some err"
| "must_not_exist (Inr True) present = Some present"
| "must_not_exist (Inr False) present = None"

fun violation :: "env \<Rightarrow> InitInfo \<Rightarrow> world \<Rightarrow> rule \<Rightarrow> error option" where
  "violation E info w SuperuserPasswordFileExists =
     must_exist (FileExists E (PasswordFile info) w)
       (Errorf (''superuser password file doesn't exist ('' @ PasswordFile info @ '')''))"
| "violation E info w ApplicationPasswordFileExists =
     must_exist (FileExists E (ApplicationPasswordFile info) w)
       (Errorf (''application user's password file doesn't exist ('' @ PasswordFile info @ '')''))"
| "violation E info w DataDirectoryAbsent =
     must_not_exist (FileExists E (InitInfo.PgData info) w)
       (Errorf ''PGData directories already exist'')"
| "violation E info w AccessRulesFileExists =
     (if HBARulesFile info = [] then None
      else must_exist (FileExists E (HBARulesFile info) w)
             (Errorf (''hba rules file doesn't exist ('' @ HBARulesFile info @ '')'')))"
| "violation E info w ExtraConfigFileExists =
     (if PostgreSQLConfigFile info = [] then None
      else must_exist (FileExists E (PostgreSQLConfigFile info) w)
             (Errorf (''postgresql config file doesn't exist ('' @ HBARulesFile info @ '')'')))"
| "violation E info w ApplicationUserNonEmpty =
     (if ApplicationUser info = [] then Some (Errorf ''the name of the application user is empty'')
      else None)"
| "violation E info w ApplicationDatabaseNonEmpty =
     (if InitInfo.ApplicationDatabase info = []
      then Some (Errorf ''the name of the application database is empty'')
      else None)"

fun first_error :: "error option list \<Rightarrow> error option" where
  "first_error [] = None"
| "first_error (None # rs) = first_error rs"
| "first_error (Some err # rs) = Some err"

definition Validate :: "env \<Rightarrow> InitInfo \<Rightarrow> world \<Rightarrow> error option" where
  "Validate E info w = first_error (map (violation E info w) validation_rules)"

section \<open>The statements, the files and the classification the specification names\<close>

text \<open>
  \<open>issue\<close> sends a list of statements in order and stops at the first one the engine
  rejects, returning its error. The statements below are those of the two
  configurators, written with the quoting function each one is built with.
\<close>

fun issue :: "env \<Rightarrow> sqldb \<Rightarrow> string list \<Rightarrow> world \<Rightarrow> error option \<times> world" where
  "issue E db [] w = (None, w)"
| "issue E db (query # rest) w =
     (case db_Exec E db query w of
        (Some err, w') \<Rightarrow> (Some err, w')
      | (None, w') \<Rightarrow> issue E db rest w')"

definition create_user_statement :: "env \<Rightarrow> InitInfo \<Rightarrow> string" where
  "create_user_statement E info = ''CREATE USER '' @ QuoteIdentifier E (ApplicationUser info)"

definition alter_user_password_statement :: "env \<Rightarrow> InitInfo \<Rightarrow> string \<Rightarrow> string" where
  "alter_user_password_statement E info password =
     ''ALTER USER '' @ QuoteIdentifier E (ApplicationUser info)
     @ '' PASSWORD '' @ QuoteLiteral E password"

definition create_database_statement :: "env \<Rightarrow> InitInfo \<Rightarrow> string" where
  "create_database_statement E info =
     ''CREATE DATABASE '' @ QuoteIdentifier E (InitInfo.ApplicationDatabase info)
     @ '' OWNER '' @ QuoteIdentifier E (ApplicationUser info)"

definition cluster_name_statement :: "env \<Rightarrow> InitInfo \<Rightarrow> string" where
  "cluster_name_statement E info =
     ''ALTER SYSTEM SET cluster_name TO '' @ QuoteIdentifier E (ClusterName info)"


definition primary_conninfo_statement :: "env \<Rightarrow> InitInfo \<Rightarrow> string" where
  "primary_conninfo_statement E info =
     ''ALTER SYSTEM SET primary_conninfo TO ''
     @ QuoteLiteral E (''host='' @ ParentNode info @ '' user=postgres dbname=postgres'')"

definition recovery_target_timeline_statement :: string where
  "recovery_target_timeline_statement =
     ''ALTER SYSTEM SET recovery_target_timeline TO 'latest'' @ [CHR 0x27]"

text \<open>
  \<open>ConfigureReplica\<close> issues the upstream-connection statement as its first action,
  once on every invocation, and no other stage of \<open>Bootstrap\<close> issues it: the number
  of times it was issued is the number of invocations of \<open>ConfigureReplica\<close>.
\<close>

definition ConfigureReplica_invocations :: "env \<Rightarrow> InitInfo \<Rightarrow> world \<Rightarrow> nat" where
  "ConfigureReplica_invocations E info w =
     count_list (calls w) (Exec (primary_conninfo_statement E info))"

text \<open>
  The content of a file (empty when there is none), and the instance's access-control
  and configuration files.
\<close>

definition content :: "world \<Rightarrow> string \<Rightarrow> string" where
  "content w p = (case files w p of None \<Rightarrow> [] | Some c \<Rightarrow> c)"

definition hba_path :: "env \<Rightarrow> InitInfo \<Rightarrow> string" where
  "hba_path E info = path_Join E (InitInfo.PgData info) ''pg_hba.conf''"

definition conf_path :: "env \<Rightarrow> InitInfo \<Rightarrow> string" where
  "conf_path E info = path_Join E (InitInfo.PgData info) ''postgresql.conf''"



section \<open>A concrete environment\<close>

text \<open>
  \<open>pq_QuoteIdentifier\<close> and \<open>pq_QuoteLiteral\<close> are the quoting functions as the
  \<open>lib/pq\<close> library defines them: an identifier is cut at the first NUL, its double
  quotes are doubled and it is put between double quotes; a literal has its single
  quotes doubled and is put between single quotes, with the backslashes doubled and
  the prefix \<open>E\<close> when it holds a backslash. The example environment never fails;
  its \<open>initdb\<close> creates the directory with its two configuration files, and its
  removal of a directory, named with or without trailing slashes, leaves nothing at
  the directory or under it (and does nothing for the empty name).
\<close>

definition pq_QuoteIdentifier :: "string \<Rightarrow> string" where
  "pq_QuoteIdentifier name =
     [CHR 0x22]
     @ concat (map (\<lambda>c. if c = CHR 0x22 then [c, c] else [c])
                 (takeWhile (\<lambda>c. c \<noteq> CHR 0x00) name))
     @ [CHR 0x22]"

definition pq_QuoteLiteral :: "string \<Rightarrow> string" where
  "pq_QuoteLiteral literal =
     (let l = concat (map (\<lambda>c. if c = CHR 0x27 then [c, c] else [c]) literal)
      in if CHR 0x5C \<in> set l
         then '' E'' @ [CHR 0x27]
              @ concat (map (\<lambda>c. if c = CHR 0x5C then [c, c] else [c]) l) @ [CHR 0x27]
         else [CHR 0x27] @ l @ [CHR 0x27])"

definition example_initdb :: "string list \<Rightarrow> world \<Rightarrow> error option \<times> fs" where
  "example_initdb options w =
     (let d = last options
      in (None, (files w)(d \<mapsto> [],
                          d @ ''/postgresql.conf'' \<mapsto> ''port = 5432\<newline>'',
                          d @ ''/pg_hba.conf'' \<mapsto> ''local all all peer\<newline>'')))"

definition example_RemoveDirectory :: "string \<Rightarrow> world \<Rightarrow> error option \<times> fs" where
  "example_RemoveDirectory dir w =
     (let d = rev (dropWhile (\<lambda>c. c = CHR ''/'') (rev dir))
      in if dir = [] then (None, files w)
         else (None, (\<lambda>p. if p = d \<or> take (Suc (length d)) p = d @ ''/''
                           then None else files w p)))"

definition example_env :: env where
  "example_env =
     \<lparr> fault = (\<lambda>h c. None),
       initdb = example_initdb,
       GetMajorVersion = (\<lambda>pgdata w. Inr 13),
       CheckTargetDataDirectory = (\<lambda>info w. (None, files w)),
       Restore = (\<lambda>info w. (None, (files w)(InitInfo.PgData info \<mapsto> []))),
       RemoveDirectory = example_RemoveDirectory,
       path_Join = (\<lambda>dir name. dir @ ''/'' @ name),
       QuoteIdentifier = pq_QuoteIdentifier,
       QuoteLiteral = pq_QuoteLiteral \<rparr>"

definition example_info :: InitInfo where
  "example_info =
     \<lparr> InitInfo.PgData = ''/pgdata'',
       PasswordFile = ''/su.pw'',
       InitInfo.ApplicationDatabase = ''appdb'',
       ApplicationUser = ''app'',
       ApplicationPasswordFile = ''/app.pw'',
       HBARulesFile = [],
       PostgreSQLConfigFile = [],
       ParentNode = ''pg-1'',
       ClusterName = ''pg'',
       Namespace = ''default'',
       PgWal = [] \<rparr>"

definition example_world :: world where
  "example_world =
     \<lparr> files = [''/su.pw'' \<mapsto> ''secret'', ''/app.pw'' \<mapsto> ''apppass''],
       calls = [],
       logged = [] \<rparr>"

text \<open>
  Environments in which one stage fails, a request with both optional files, a
  restore collaborator that fails with a given error after writing part of the target,
  and the same with a removal that is refused.
\<close>

definition create_user_fails_env :: env where
  \<open>create_user_fails_env =
     example_env\<lparr>fault := (\<lambda>h c. if c = Exec ''CREATE USER "app"''
                                  then Some (OSError ''role "app" already exists'')
                                  else None)\<rparr>\<close>

definition open_db_fails_env :: env where
  "open_db_fails_env =
     example_env\<lparr>fault := (\<lambda>h c. if c = OpenDB
                                  then Some (OSError ''connection refused'')
                                  else None)\<rparr>"

definition version_unknown_env :: env where
  "version_unknown_env =
     example_env\<lparr>GetMajorVersion := (\<lambda>pgdata w. Inl (OSError ''PG_VERSION: no such file''))\<rparr>"

definition options_info :: InitInfo where
  "options_info =
     example_info\<lparr>HBARulesFile := ''/hba'', PostgreSQLConfigFile := ''/extra.conf''\<rparr>"

definition options_world :: world where
  "options_world =
     example_world\<lparr>files := (files example_world)
        (''/hba'' \<mapsto> ''host all all all md5\<newline>'',
         ''/extra.conf'' \<mapsto> ''shared_buffers = 1GB\<newline>'')\<rparr>"




section \<open>Properties of VerifyConfiguration\<close>

lemma must_exist_cases:
  "must_exist r m = (case r of Inl err \<Rightarrow> Some err | Inr b \<Rightarrow> if b then None else Some m)"
  by (cases r) (auto split: sum.splits)

lemma must_not_exist_cases:
  "must_not_exist r m = (case r of Inl err \<Rightarrow> Some err | Inr b \<Rightarrow> if b then Some m else None)"
  by (cases r) (auto split: sum.splits)

lemma first_error_None: "(first_error rs = None) = list_all (\<lambda>r. r = None) rs"
  by (induction rs rule: first_error.induct) simp_all

lemma VerifyConfiguration_Validate: "VerifyConfiguration E info w = Validate E info w"
  unfolding VerifyConfiguration_def Validate_def validation_rules_def
  by (cases "FileExists E (PasswordFile info) w";
      cases "FileExists E (ApplicationPasswordFile info) w";
      cases "FileExists E (InitInfo.PgData info) w";
      cases "FileExists E (HBARulesFile info) w";
      cases "FileExists E (PostgreSQLConfigFile info) w";
      simp add: must_exist_cases must_not_exist_cases)

text \<open>
  C3. \<open>VerifyConfiguration\<close> evaluates the seven checks in the order superuser
  password file exists, application password file exists, target data directory does
  not exist, access-rules file exists if set, extra-configuration file exists if set,
  application user name non-empty, application database name non-empty: its result is
  the error of the first violated rule in that order, and it succeeds exactly when no
  rule is violated.
\<close>

theorem VerifyConfiguration_first_violated_rule:
  "VerifyConfiguration E info w = first_error (map (violation E info w) validation_rules)
   \<and> (VerifyConfiguration E info w = None)
       = list_all (\<lambda>r. violation E info w r = None) validation_rules"
  unfolding VerifyConfiguration_Validate
  by (simp add: Validate_def first_error_None list_all_iff del: violation.simps)

text \<open>
  C10. When \<open>VerifyConfiguration\<close> rejects a request because the application
  user's password file is missing, the message carries the path of the superuser
  password file; when it rejects because the extra PostgreSQL configuration file is
  missing, the message carries the path of the access-rules (HBA) file.
\<close>

theorem VerifyConfiguration_reported_paths:
  "(FileExists E (PasswordFile info) w = Inr True
      \<and> FileExists E (ApplicationPasswordFile info) w = Inr False
    \<longrightarrow> VerifyConfiguration E info w
          = Some (Errorf (''application user's password file doesn't exist (''
                            @ PasswordFile info @ '')'')))
   \<and> (FileExists E (PasswordFile info) w = Inr True
      \<and> FileExists E (ApplicationPasswordFile info) w = Inr True
      \<and> FileExists E (InitInfo.PgData info) w = Inr False
      \<and> (HBARulesFile info = [] \<or> FileExists E (HBARulesFile info) w = Inr True)
      \<and> PostgreSQLConfigFile info \<noteq> []
      \<and> FileExists E (PostgreSQLConfigFile info) w = Inr False
    \<longrightarrow> VerifyConfiguration E info w
          = Some (Errorf (''postgresql config file doesn't exist (''
                            @ HBARulesFile info @ '')'')))"
  unfolding VerifyConfiguration_def by auto

theorem VerifyConfiguration_reported_paths_witness:
  "FileExists example_env ''/su.pw'' (example_world\<lparr>files := [''/su.pw'' \<mapsto> ''secret'']\<rparr>) = Inr True
   \<and> FileExists example_env ''/app.pw'' (example_world\<lparr>files := [''/su.pw'' \<mapsto> ''secret'']\<rparr>) = Inr False
   \<and> VerifyConfiguration example_env example_info
        (example_world\<lparr>files := [''/su.pw'' \<mapsto> ''secret'']\<rparr>)
      = Some (Errorf ''application user's password file doesn't exist (/su.pw)'')
   \<and> FileExists example_env ''/extra.conf'' (example_world\<lparr>files := (files example_world)(''/hba'' \<mapsto> ''host all all all md5'')\<rparr>) = Inr False
   \<and> VerifyConfiguration example_env
        (example_info\<lparr>HBARulesFile := ''/hba'', PostgreSQLConfigFile := ''/extra.conf''\<rparr>)
        (example_world\<lparr>files := (files example_world)(''/hba'' \<mapsto> ''host all all all md5'')\<rparr>)
      = Some (Errorf ''postgresql config file doesn't exist (/hba)'')"
  using VerifyConfiguration_reported_paths
          [of example_env example_info "example_world\<lparr>files := [''/su.pw'' \<mapsto> ''secret'']\<rparr>"]
        VerifyConfiguration_reported_paths
          [of example_env "example_info\<lparr>HBARulesFile := ''/hba'', PostgreSQLConfigFile := ''/extra.conf''\<rparr>"
              "example_world\<lparr>files := (files example_world)(''/hba'' \<mapsto> ''host all all all md5'')\<rparr>"]
  by (simp add: FileExists_def example_env_def example_info_def example_world_def)

section \<open>Properties of the bootstrap and restore paths\<close>

lemma calls_record_call [simp]: "calls (record_call c w) = calls w @ [c]"
  by (simp add: record_call_def)

lemma files_record_call [simp]: "files (record_call c w) = files w"
  by (simp add: record_call_def)

lemma logged_record_call [simp]: "logged (record_call c w) = logged w"
  by (simp add: record_call_def)

lemma calls_log_Info [simp]: "calls (log_Info m w) = calls w"
  by (simp add: log_Info_def)

lemma files_log_Info [simp]: "files (log_Info m w) = files w"
  by (simp add: log_Info_def)

lemma calls_log_Error [simp]: "calls (log_Error e m w) = calls w"
  by (simp add: log_Error_def)

lemma files_log_Error [simp]: "files (log_Error e m w) = files w"
  by (simp add: log_Error_def)

lemma ReadFile_log_Info [simp]: "ReadFile E p (log_Info m w) = ReadFile E p w"
  by (simp add: ReadFile_def split: option.splits)

lemma AppendStringToFile_calls:
  "calls (snd (AppendStringToFile E t c w)) = calls w @ [AppendTo t c]"
  by (simp add: AppendStringToFile_def split: option.splits)

lemma AppendFile_calls:
  "calls (snd (AppendFile E t s w)) =
     calls w @ (case ReadFile E s w of Inl err \<Rightarrow> [] | Inr c \<Rightarrow> [AppendTo t c])"
  by (simp add: AppendFile_def AppendStringToFile_calls split: sum.splits)

lemma AppendFile_ok:
  assumes "AppendFile E t s w = (None, w')"
  shows "ReadFile E s w = Inr (content w s)"
    and "calls w' = calls w @ [AppendTo t (content w s)]"
    and "files w' = (files w)(t \<mapsto> content w t @ content w s)"
  using assms
  by (auto simp: AppendFile_def AppendStringToFile_def ReadFile_def content_def
           split: sum.splits option.splits)

lemma run_initdb_calls:
  "calls (snd (run_initdb E opts w)) = calls w @ [Initdb opts]"
  by (simp add: run_initdb_def split: prod.splits)


lemma optional_AppendFile_calls:
  assumes "(if length src \<noteq> 0 then AppendFile E t src w else (None, w)) = (r, w')"
  shows "\<exists>cs. calls w' = calls w @ cs \<and> (\<forall>q. Exec q \<notin> set cs) \<and> Startup \<notin> set cs"
proof (cases "src = []")
  case True
  with assms show ?thesis by simp
next
  case False
  with assms have "AppendFile E t src w = (r, w')" by simp
  then have "calls w' = calls w @ (case ReadFile E src w of Inl err \<Rightarrow> [] | Inr c \<Rightarrow> [AppendTo t c])"
    using AppendFile_calls[of E t src w] by simp
  then show ?thesis by (cases "ReadFile E src w") auto
qed

lemma CreateDataDirectory_calls_Initdb:
  "\<exists>rest. calls (snd (CreateDataDirectory E info w)) = calls w @ Initdb (initdb_options info) # rest
      \<and> (\<forall>q. Exec q \<notin> set rest) \<and> Startup \<notin> set rest"
proof -
  define w0 where "w0 = log_Info ''Creating new data directory'' w"
  define hba where "hba = path_Join E (InitInfo.PgData info) ''pg_hba.conf''"
  define conf where "conf = path_Join E (InitInfo.PgData info) ''postgresql.conf''"
  obtain r1 w1 where i: "run_initdb E (initdb_options info) w0 = (r1, w1)"
    by (cases "run_initdb E (initdb_options info) w0")
  have c1: "calls w1 = calls w @ [Initdb (initdb_options info)]"
    using run_initdb_calls[of E "initdb_options info" w0] i by (simp add: w0_def)
  obtain r2 w2 where h: "(if length (HBARulesFile info) \<noteq> 0
            then AppendFile E hba (HBARulesFile info) w1 else (None, w1)) = (r2, w2)"
    by (cases "(if length (HBARulesFile info) \<noteq> 0
            then AppendFile E hba (HBARulesFile info) w1 else (None, w1))")
  obtain r3 w3 where p: "(if length (PostgreSQLConfigFile info) \<noteq> 0
            then AppendFile E conf (PostgreSQLConfigFile info) w2 else (None, w2)) = (r3, w3)"
    by (cases "(if length (PostgreSQLConfigFile info) \<noteq> 0
            then AppendFile E conf (PostgreSQLConfigFile info) w2 else (None, w2))")
  obtain r4 w4 where s: "AppendStringToFile E conf archive_stanza w3 = (r4, w4)"
    by (cases "AppendStringToFile E conf archive_stanza w3")
  have c4: "calls w4 = calls w3 @ [AppendTo conf archive_stanza]"
    using s AppendStringToFile_calls[of E conf archive_stanza w3] by simp
  from optional_AppendFile_calls[OF h]
  obtain cs2 where cs2: "calls w2 = calls w1 @ cs2" "\<forall>q. Exec q \<notin> set cs2" "Startup \<notin> set cs2"
    by blast
  from optional_AppendFile_calls[OF p]
  obtain cs3 where cs3: "calls w3 = calls w2 @ cs3" "\<forall>q. Exec q \<notin> set cs3" "Startup \<notin> set cs3"
    by blast
  have cdd: "snd (CreateDataDirectory E info w) =
     (case r1 of Some err \<Rightarrow> log_Info ''initdb output'' w1
      | None \<Rightarrow> (case r2 of Some err \<Rightarrow> w2
         | None \<Rightarrow> (case r3 of Some err \<Rightarrow> w3 | None \<Rightarrow> w4)))"
    unfolding CreateDataDirectory_def Let_def w0_def[symmetric] hba_def[symmetric]
      conf_def[symmetric] i
    apply (cases r1)
     apply (simp_all only: prod.case option.case snd_conv h)
    apply (cases r2)
     apply (simp_all only: prod.case option.case snd_conv p)
    apply (cases r3)
     apply (simp_all only: prod.case option.case snd_conv s)
    apply (cases r4)
     apply (simp_all only: prod.case option.case snd_conv)
    done
  show ?thesis
  proof (cases r1)
    case Some
    then show ?thesis using cdd c1 by simp
  next
    case None
    note n1 = this
    show ?thesis
    proof (cases r2)
      case Some
      then show ?thesis using cdd n1 c1 cs2 by simp
    next
      case None
      note n2 = this
      show ?thesis
      proof (cases r3)
        case Some
        then show ?thesis using cdd n1 n2 c1 cs2 cs3 by simp
      next
        case None
        then show ?thesis using cdd n1 n2 c1 cs2 cs3 c4 by simp
      qed
    qed
  qed
qed


lemma Bootstrap_steps:
  assumes "CreateDataDirectory E info w = (None, w1)"
    and "GetMajorVersion E (InitInfo.PgData info) w1 = Inr v"
  shows "Bootstrap E info w =
     (case fault E (calls w1) Startup of
        Some err \<Rightarrow> (Some err, record_call Startup w1)
      | None \<Rightarrow>
          (case GetSuperUserDB E (GetInstance info) (record_call Startup w1) of
             Inl err \<Rightarrow> (None, record_call Shutdown (record_call Startup w1))
           | Inr db \<Rightarrow>
               (case ConfigureApplicationEnvironment E info db (record_call Startup w1) of
                  (Some err, w3) \<Rightarrow> (None, record_call Shutdown w3)
                | (None, w3) \<Rightarrow>
                    if 12 \<le> v
                    then (case ConfigureReplica E info db w3 of
                            (r, w4) \<Rightarrow> (r, record_call Shutdown w4))
                    else (None, record_call Shutdown w3))))"
  using assms
  by (simp add: Bootstrap_def WithActiveInstance_def GetInstance_def
           split: option.splits sum.splits prod.splits)

lemma db_Exec_count:
  "count_list (calls (snd (db_Exec E db q w))) c
     = count_list (calls w) c + (if Exec q = c then 1 else 0)"
  by (simp add: db_Exec_def)

lemma ConfigureReplica_count:
  "count_list (calls (snd (ConfigureReplica E info db w))) (Exec (primary_conninfo_statement E info))
     = Suc (count_list (calls w) (Exec (primary_conninfo_statement E info)))"
  by (simp add: ConfigureReplica_def db_Exec_def Let_def primary_conninfo_statement_def
           split: option.splits)

lemma ConfigureApplicationEnvironment_count:
  "count_list (calls (snd (ConfigureApplicationEnvironment E info db w)))
       (Exec (primary_conninfo_statement E info))
     = count_list (calls w) (Exec (primary_conninfo_statement E info))"
  by (simp add: ConfigureApplicationEnvironment_def db_Exec_def primary_conninfo_statement_def
           split: option.splits sum.splits)

lemma CreateDataDirectory_count:
  "count_list (calls (snd (CreateDataDirectory E info w))) (Exec q) = count_list (calls w) (Exec q)"
proof -
  obtain rest where "calls (snd (CreateDataDirectory E info w)) = calls w @ Initdb (initdb_options info) # rest"
    and "\<forall>q. Exec q \<notin> set rest"
    using CreateDataDirectory_calls_Initdb[of E info w] by blast
  then show ?thesis by simp
qed


lemma CreateDataDirectory_steps:
  assumes i: "run_initdb E (initdb_options info) (log_Info ''Creating new data directory'' w) = (r1, w1)"
    and h: "(if HBARulesFile info = [] then (None, w1)
             else AppendFile E (hba_path E info) (HBARulesFile info) w1) = (r2, w2)"
    and p: "(if PostgreSQLConfigFile info = [] then (None, w2)
             else AppendFile E (conf_path E info) (PostgreSQLConfigFile info) w2) = (r3, w3)"
    and s: "AppendStringToFile E (conf_path E info) archive_stanza w3 = (r4, w4)"
  shows "CreateDataDirectory E info w =
     (case r1 of
        Some err \<Rightarrow> (Some (Wrap err ''Error while creating the PostgreSQL instance''),
                     log_Info ''initdb output'' w1)
      | None \<Rightarrow>
     (case r2 of
        Some err \<Rightarrow> (Some (Wrap err ''appending to pg_hba.conf file resulted in an error''), w2)
      | None \<Rightarrow>
     (case r3 of
        Some err \<Rightarrow> (Some (Wrap err ''appending to postgresql.conf file resulted in an error''), w3)
      | None \<Rightarrow>
     (case r4 of
        Some err \<Rightarrow> (Some (Wrap err ''appending to postgresql.conf file resulted in an error''), w4)
      | None \<Rightarrow> (None, w4)))))"
proof -
  have h': "(if length (HBARulesFile info) \<noteq> 0
            then AppendFile E (path_Join E (InitInfo.PgData info) ''pg_hba.conf'')
                   (HBARulesFile info) w1
            else (None, w1)) = (r2, w2)"
    using h by (simp add: hba_path_def split: if_splits)
  have p': "(if length (PostgreSQLConfigFile info) \<noteq> 0
            then AppendFile E (path_Join E (InitInfo.PgData info) ''postgresql.conf'')
                   (PostgreSQLConfigFile info) w2
            else (None, w2)) = (r3, w3)"
    using p by (simp add: conf_path_def split: if_splits)
  note s' = s[unfolded conf_path_def]
  show ?thesis
    unfolding CreateDataDirectory_def Let_def i
    apply (cases r1)
     apply (simp_all only: prod.case option.case h')
    apply (cases r2)
     apply (simp_all only: prod.case option.case p')
    apply (cases r3)
     apply (simp_all only: prod.case option.case s')
    done
qed

text \<open>
  C4 (amended). For every request on which the external initialization program
  succeeds and on which the append of each supplied optional file (access rules, extra
  configuration) succeeds, \<open>CreateDataDirectory\<close> appends the fixed stanza to the
  instance's configuration file as its last operation, after the appends of the
  optional contents; the stanza enables \<open>archive_mode\<close> and sets \<open>archive_command\<close>
  to \<open>/controller/manager wal-archive %p\<close>. When that append succeeds the operation
  succeeds and the configuration file holds what it held before, then the extra
  configuration if one was supplied, then the stanza: nothing is overwritten.
\<close>

theorem CreateDataDirectory_archive_stanza:
  assumes i: "run_initdb E (initdb_options info) (log_Info ''Creating new data directory'' w) = (None, w1)"
    and h: "(if HBARulesFile info = [] then (None, w1)
             else AppendFile E (hba_path E info) (HBARulesFile info) w1) = (None, w2)"
    and p: "(if PostgreSQLConfigFile info = [] then (None, w2)
             else AppendFile E (conf_path E info) (PostgreSQLConfigFile info) w2) = (None, w3)"
  shows "calls (snd (CreateDataDirectory E info w)) =
           calls w @ [Initdb (initdb_options info)]
           @ (if HBARulesFile info = [] then []
              else [AppendTo (hba_path E info) (content w1 (HBARulesFile info))])
           @ (if PostgreSQLConfigFile info = [] then []
              else [AppendTo (conf_path E info) (content w2 (PostgreSQLConfigFile info))])
           @ [AppendTo (conf_path E info) archive_stanza]
       \<and> (fault E (calls w3) (AppendTo (conf_path E info) archive_stanza) = None \<longrightarrow>
            fst (CreateDataDirectory E info w) = None
            \<and> files (snd (CreateDataDirectory E info w)) (conf_path E info)
                = Some (content w2 (conf_path E info)
                        @ (if PostgreSQLConfigFile info = [] then []
                           else content w2 (PostgreSQLConfigFile info))
                        @ archive_stanza))"
proof -
  obtain r4 w4 where s: "AppendStringToFile E (conf_path E info) archive_stanza w3 = (r4, w4)"
    by (cases "AppendStringToFile E (conf_path E info) archive_stanza w3")
  have cdd: "snd (CreateDataDirectory E info w) = w4"
    and res: "r4 = None \<Longrightarrow> fst (CreateDataDirectory E info w) = None"
    using CreateDataDirectory_steps[OF i h p s] by (cases r4; simp)+
  have c1: "calls w1 = calls w @ [Initdb (initdb_options info)]"
    using run_initdb_calls[of E "initdb_options info" "log_Info ''Creating new data directory'' w"] i
    by simp
  have c2: "calls w2 = calls w1 @ (if HBARulesFile info = [] then []
              else [AppendTo (hba_path E info) (content w1 (HBARulesFile info))])"
    using h AppendFile_ok(2)[of E "hba_path E info" "HBARulesFile info" w1 w2]
    by (simp split: if_splits)
  have c3: "calls w3 = calls w2 @ (if PostgreSQLConfigFile info = [] then []
              else [AppendTo (conf_path E info) (content w2 (PostgreSQLConfigFile info))])"
    using p AppendFile_ok(2)[of E "conf_path E info" "PostgreSQLConfigFile info" w2 w3]
    by (simp split: if_splits)
  have f3: "content w3 (conf_path E info) = content w2 (conf_path E info)
              @ (if PostgreSQLConfigFile info = [] then []
                 else content w2 (PostgreSQLConfigFile info))"
    using p AppendFile_ok(3)[of E "conf_path E info" "PostgreSQLConfigFile info" w2 w3]
    by (simp add: content_def split: if_splits)
  have c4: "calls w4 = calls w3 @ [AppendTo (conf_path E info) archive_stanza]"
    using s AppendStringToFile_calls[of E "conf_path E info" archive_stanza w3] by simp
  have f4: "fault E (calls w3) (AppendTo (conf_path E info) archive_stanza) = None \<Longrightarrow>
              r4 = None \<and> files w4 (conf_path E info)
                = Some (content w3 (conf_path E info) @ archive_stanza)"
    using s by (auto simp: AppendStringToFile_def content_def split: option.splits)
  show ?thesis
    using cdd res c1 c2 c3 c4 f3 f4 by simp
qed


lemmas example_defs =
  example_env_def example_info_def example_world_def example_initdb_def
  options_info_def options_world_def

lemmas file_defs =
  FileExists_def ReadFile_def AppendFile_def AppendStringToFile_def run_initdb_def
  record_call_def log_Info_def log_Error_def initdb_options_def hba_path_def conf_path_def

lemma example_CreateDataDirectory:
  "fst (CreateDataDirectory example_env example_info example_world) = None"
  "calls (snd (CreateDataDirectory example_env example_info example_world)) =
     [Initdb [''--username'', ''postgres'', ''--pwfile'', ''/su.pw'', ''-D'', ''/pgdata''],
      AppendTo ''/pgdata/postgresql.conf'' archive_stanza]"
  "files (snd (CreateDataDirectory example_env example_info example_world)) ''/pgdata/postgresql.conf''
     = Some (''port = 5432\<newline>'' @ archive_stanza)"
  by (simp_all add: CreateDataDirectory_def example_defs file_defs Let_def)

theorem CreateDataDirectory_archive_stanza_counterexample:
  "fst (run_initdb example_env (initdb_options (example_info\<lparr>HBARulesFile := ''/hba''\<rparr>))
          (log_Info ''Creating new data directory'' example_world)) = None
   \<and> fst (CreateDataDirectory example_env (example_info\<lparr>HBARulesFile := ''/hba''\<rparr>) example_world)
       = Some (Wrap (ErrNotExist ''/hba'') ''appending to pg_hba.conf file resulted in an error'')
   \<and> calls (snd (CreateDataDirectory example_env (example_info\<lparr>HBARulesFile := ''/hba''\<rparr>)
                   example_world))
       = [Initdb [''--username'', ''postgres'', ''--pwfile'', ''/su.pw'', ''-D'', ''/pgdata'']]
   \<and> files (snd (CreateDataDirectory example_env (example_info\<lparr>HBARulesFile := ''/hba''\<rparr>)
                   example_world)) ''/pgdata/postgresql.conf''
       = Some ''port = 5432\<newline>''"
  by (simp add: CreateDataDirectory_def example_defs file_defs Let_def)


lemmas sql_defs =
  Bootstrap_def WithActiveInstance_def GetSuperUserDB_def GetInstance_def
  ConfigureApplicationEnvironment_def ConfigureReplica_def db_Exec_def
  pq_QuoteIdentifier_def pq_QuoteLiteral_def

theorem CreateDataDirectory_archive_stanza_witness:
  "fst (run_initdb example_env (initdb_options options_info)
          (log_Info ''Creating new data directory'' options_world)) = None
   \<and> calls (snd (CreateDataDirectory example_env options_info options_world))
       = [Initdb [''--username'', ''postgres'', ''--pwfile'', ''/su.pw'', ''-D'', ''/pgdata''],
          AppendTo ''/pgdata/pg_hba.conf'' ''host all all all md5\<newline>'',
          AppendTo ''/pgdata/postgresql.conf'' ''shared_buffers = 1GB\<newline>'',
          AppendTo ''/pgdata/postgresql.conf'' archive_stanza]
   \<and> fst (CreateDataDirectory example_env options_info options_world) = None
   \<and> files (snd (CreateDataDirectory example_env options_info options_world))
         ''/pgdata/postgresql.conf''
       = Some (''port = 5432\<newline>'' @ ''shared_buffers = 1GB\<newline>'' @ archive_stanza)"
proof -
  let ?w0 = "log_Info ''Creating new data directory'' options_world"
  let ?w1 = "snd (run_initdb example_env (initdb_options options_info) ?w0)"
  let ?w2 = "snd (AppendFile example_env (hba_path example_env options_info) ''/hba'' ?w1)"
  let ?w3 = "snd (AppendFile example_env (conf_path example_env options_info) ''/extra.conf'' ?w2)"
  have i: "run_initdb example_env (initdb_options options_info) ?w0 = (None, ?w1)"
    by (simp add: example_defs file_defs Let_def)
  have h: "(if HBARulesFile options_info = [] then (None, ?w1)
            else AppendFile example_env (hba_path example_env options_info)
                   (HBARulesFile options_info) ?w1) = (None, ?w2)"
    by (simp add: example_defs file_defs Let_def)
  have p: "(if PostgreSQLConfigFile options_info = [] then (None, ?w2)
            else AppendFile example_env (conf_path example_env options_info)
                   (PostgreSQLConfigFile options_info) ?w2) = (None, ?w3)"
    by (simp add: example_defs file_defs Let_def)
  from CreateDataDirectory_archive_stanza[OF i h p] i show ?thesis
    by (simp add: example_defs file_defs content_def Let_def)
qed

lemma ConfigureApplicationEnvironment_calls:
  "\<exists>cs. calls (snd (ConfigureApplicationEnvironment E info db w)) = calls w @ cs"
  by (simp add: ConfigureApplicationEnvironment_def db_Exec_def
           split: option.splits sum.splits)

lemma ConfigureReplica_calls:
  "\<exists>cs. calls (snd (ConfigureReplica E info db w)) = calls w @ cs"
  by (simp add: ConfigureReplica_def db_Exec_def Let_def split: option.splits)

lemma Bootstrap_after_CreateDataDirectory:
  "\<exists>cs. calls (snd (Bootstrap E info w)) = calls (snd (CreateDataDirectory E info w)) @ cs"
proof (cases "CreateDataDirectory E info w")
  case (Pair r1 w1)
  show ?thesis
  proof (cases r1)
    case (Some err)
    with Pair show ?thesis by (simp add: Bootstrap_def)
  next
    case None
    note cdd = Pair[unfolded None]
    show ?thesis
    proof (cases "GetMajorVersion E (InitInfo.PgData info) w1")
      case (Inl err)
      with cdd show ?thesis by (simp add: Bootstrap_def GetInstance_def)
    next
      case (Inr v)
      obtain r3 w3 where cae:
        "ConfigureApplicationEnvironment E info SuperUserDB (record_call Startup w1) = (r3, w3)"
        by (cases "ConfigureApplicationEnvironment E info SuperUserDB (record_call Startup w1)")
      obtain cs3 where cs3: "calls w3 = calls w1 @ Startup # cs3"
        using ConfigureApplicationEnvironment_calls[of E info SuperUserDB "record_call Startup w1"] cae
        by auto
      obtain r4 w4 where cr: "ConfigureReplica E info SuperUserDB w3 = (r4, w4)"
        by (cases "ConfigureReplica E info SuperUserDB w3")
      obtain cs4 where cs4: "calls w4 = calls w3 @ cs4"
        using ConfigureReplica_calls[of E info SuperUserDB w3] cr by auto
      show ?thesis
        unfolding Bootstrap_steps[OF cdd Inr]
        using cdd cae cr cs3 cs4
        by (auto simp: GetSuperUserDB_def split: option.splits sum.splits)
    qed
  qed
qed

text \<open>
  C2 (amended). \<open>Bootstrap\<close> performs no validation of its own: on every request,
  accepted by \<open>VerifyConfiguration\<close> or not, its first operation is the run of the
  external initialization program of \<open>CreateDataDirectory\<close>. Validation is a separate
  operation, left to the caller of \<open>Bootstrap\<close>.
\<close>

theorem Bootstrap_first_stage:
  "\<exists>rest. calls (snd (Bootstrap E info w)) = calls w @ Initdb (initdb_options info) # rest"
  using Bootstrap_after_CreateDataDirectory[of E info w]
        CreateDataDirectory_calls_Initdb[of E info w]
  by auto

theorem Bootstrap_first_stage_counterexample:
  "VerifyConfiguration example_env example_info
       (example_world\<lparr>files := (files example_world)(''/pgdata'' \<mapsto> [])\<rparr>)
     = Some (Errorf ''PGData directories already exist'')
   \<and> hd (calls (snd (Bootstrap example_env example_info
                      (example_world\<lparr>files := (files example_world)(''/pgdata'' \<mapsto> [])\<rparr>))))
     = Initdb [''--username'', ''postgres'', ''--pwfile'', ''/su.pw'', ''-D'', ''/pgdata'']"
  by (simp add: VerifyConfiguration_def CreateDataDirectory_def sql_defs example_defs file_defs
        Let_def)


text \<open>
  C6 (amended). For every bootstrap in which the data directory is created and the
  detection of the engine's major version succeeds, \<open>ConfigureReplica\<close> is invoked
  exactly once when the version is at least 12 and the transient instance starts, the
  superuser handle is obtained and \<open>ConfigureApplicationEnvironment\<close> succeeds; it is
  never invoked otherwise, in particular never when the version is below 12.
\<close>

theorem Bootstrap_ConfigureReplica_invocations:
  assumes cdd: "CreateDataDirectory E info w = (None, w1)"
    and ver: "GetMajorVersion E (InitInfo.PgData info) w1 = Inr v"
  shows "ConfigureReplica_invocations E info (snd (Bootstrap E info w)) =
     ConfigureReplica_invocations E info w
     + (if 12 \<le> v
           \<and> fault E (calls w1) Startup = None
           \<and> GetSuperUserDB E (GetInstance info) (record_call Startup w1) = Inr SuperUserDB
           \<and> fst (ConfigureApplicationEnvironment E info SuperUserDB (record_call Startup w1)) = None
        then 1 else 0)"
proof -
  let ?q = "Exec (primary_conninfo_statement E info)"
  obtain r3 w3 where cae:
    "ConfigureApplicationEnvironment E info SuperUserDB (record_call Startup w1) = (r3, w3)"
    by (cases "ConfigureApplicationEnvironment E info SuperUserDB (record_call Startup w1)")
  obtain r4 w4 where cr: "ConfigureReplica E info SuperUserDB w3 = (r4, w4)"
    by (cases "ConfigureReplica E info SuperUserDB w3")
  have n1: "count_list (calls w1) ?q = count_list (calls w) ?q"
    using CreateDataDirectory_count[of E info w "primary_conninfo_statement E info"] cdd by simp
  have n3: "count_list (calls w3) ?q = count_list (calls w1) ?q"
    using ConfigureApplicationEnvironment_count[of E info SuperUserDB "record_call Startup w1"] cae
    by simp
  have n4: "count_list (calls w4) ?q = Suc (count_list (calls w3) ?q)"
    using ConfigureReplica_count[of E info SuperUserDB w3] cr by simp
  show ?thesis
    unfolding ConfigureReplica_invocations_def Bootstrap_steps[OF cdd ver]
    using cae cr n1 n3 n4
    by (cases "fault E (calls w1) Startup"; cases r3)
       (simp_all add: GetSuperUserDB_def split: option.splits)
qed


lemma example_CreateDataDirectory_eq:
  "CreateDataDirectory example_env example_info example_world
     = (None, snd (CreateDataDirectory example_env example_info example_world))"
  using example_CreateDataDirectory(1) by (simp add: prod_eq_iff)

theorem Bootstrap_ConfigureReplica_invocations_witness:
  "fst (CreateDataDirectory example_env example_info example_world) = None
   \<and> GetMajorVersion example_env (InitInfo.PgData example_info)
         (snd (CreateDataDirectory example_env example_info example_world)) = Inr 13
   \<and> ConfigureReplica_invocations example_env example_info example_world = 0
   \<and> ConfigureReplica_invocations example_env example_info
         (snd (Bootstrap example_env example_info example_world)) = 1"
proof -
  have ver: "GetMajorVersion example_env (InitInfo.PgData example_info)
         (snd (CreateDataDirectory example_env example_info example_world)) = Inr 13"
    by (simp add: example_env_def)
  have cae: "fst (ConfigureApplicationEnvironment example_env example_info SuperUserDB
               (record_call Startup
                  (snd (CreateDataDirectory example_env example_info example_world)))) = None"
    by (simp add: CreateDataDirectory_def sql_defs example_defs file_defs Let_def)
  have c0: "ConfigureReplica_invocations example_env example_info example_world = 0"
    by (simp add: ConfigureReplica_invocations_def example_world_def)
  have st: "fault example_env
              (calls (snd (CreateDataDirectory example_env example_info example_world)))
              Startup = None"
    by (simp add: example_env_def)
  have db: "GetSuperUserDB example_env (GetInstance example_info)
              (record_call Startup
                 (snd (CreateDataDirectory example_env example_info example_world)))
            = Inr SuperUserDB"
    by (simp add: GetSuperUserDB_def example_env_def)
  from Bootstrap_ConfigureReplica_invocations[OF example_CreateDataDirectory_eq ver]
  show ?thesis
    using example_CreateDataDirectory(1) ver c0 st db cae by simp
qed

theorem Bootstrap_ConfigureReplica_invocations_counterexample:
  \<open>fst (CreateDataDirectory create_user_fails_env example_info example_world) = None
   \<and> GetMajorVersion create_user_fails_env (InitInfo.PgData example_info)
         (snd (CreateDataDirectory create_user_fails_env example_info example_world)) = Inr 13
   \<and> calls (snd (Bootstrap create_user_fails_env example_info example_world))
       = [Initdb [''--username'', ''postgres'', ''--pwfile'', ''/su.pw'', ''-D'', ''/pgdata''],
          AppendTo ''/pgdata/postgresql.conf'' archive_stanza,
          Startup, Exec ''CREATE USER "app"'', Shutdown]
   \<and> ConfigureReplica_invocations create_user_fails_env example_info
         (snd (Bootstrap create_user_fails_env example_info example_world)) = 0\<close>
  by (simp add: CreateDataDirectory_def sql_defs example_defs file_defs Let_def
        create_user_fails_env_def ConfigureReplica_invocations_def
        primary_conninfo_statement_def)

text \<open>
  C8 (amended). For every bootstrap in which the detection of the engine's major
  version fails after the data directory has been created, \<open>Bootstrap\<close> stops there:
  the world is left as \<open>CreateDataDirectory\<close> left it, the transient instance is not
  started and no SQL statement is issued, so neither the application environment nor
  the replica is configured.
\<close>

theorem Bootstrap_version_detection_failure:
  assumes "CreateDataDirectory E info w = (None, w1)"
    and "GetMajorVersion E (InitInfo.PgData info) w1 = Inl err"
  shows "snd (Bootstrap E info w) = w1
     \<and> count_list (calls (snd (Bootstrap E info w))) Startup = count_list (calls w) Startup
     \<and> count_list (calls (snd (Bootstrap E info w))) (Exec q)
         = count_list (calls w) (Exec q)"
proof -
  obtain rest where "calls w1 = calls w @ Initdb (initdb_options info) # rest"
    and "\<forall>q. Exec q \<notin> set rest" and "Startup \<notin> set rest"
    using CreateDataDirectory_calls_Initdb[of E info w] assms(1) by auto
  then show ?thesis
    using assms by (simp add: Bootstrap_def GetInstance_def)
qed

lemma version_unknown_CreateDataDirectory:
  "CreateDataDirectory version_unknown_env example_info example_world
     = (None, snd (CreateDataDirectory version_unknown_env example_info example_world))"
  by (simp add: prod_eq_iff CreateDataDirectory_def example_defs file_defs Let_def
        version_unknown_env_def)

theorem Bootstrap_version_detection_failure_witness:
  "fst (CreateDataDirectory version_unknown_env example_info example_world) = None
   \<and> GetMajorVersion version_unknown_env (InitInfo.PgData example_info)
         (snd (CreateDataDirectory version_unknown_env example_info example_world))
       = Inl (OSError ''PG_VERSION: no such file'')
   \<and> snd (Bootstrap version_unknown_env example_info example_world)
       = snd (CreateDataDirectory version_unknown_env example_info example_world)
   \<and> calls (snd (Bootstrap version_unknown_env example_info example_world))
       = [Initdb [''--username'', ''postgres'', ''--pwfile'', ''/su.pw'', ''-D'', ''/pgdata''],
          AppendTo ''/pgdata/postgresql.conf'' archive_stanza]"
proof -
  have ver: "GetMajorVersion version_unknown_env (InitInfo.PgData example_info)
         (snd (CreateDataDirectory version_unknown_env example_info example_world))
       = Inl (OSError ''PG_VERSION: no such file'')"
    by (simp add: version_unknown_env_def)
  from Bootstrap_version_detection_failure[OF version_unknown_CreateDataDirectory ver]
  show ?thesis
    by (simp add: ver CreateDataDirectory_def example_defs file_defs Let_def
          version_unknown_env_def)
qed

theorem Bootstrap_version_detection_failure_counterexample:
  \<open>fst (CreateDataDirectory version_unknown_env example_info example_world) = None
   \<and> GetMajorVersion version_unknown_env (InitInfo.PgData example_info)
         (snd (CreateDataDirectory version_unknown_env example_info example_world))
       = Inl (OSError ''PG_VERSION: no such file'')
   \<and> Startup \<notin> set (calls (snd (Bootstrap version_unknown_env example_info example_world)))
   \<and> Exec ''CREATE USER "app"''
       \<notin> set (calls (snd (Bootstrap version_unknown_env example_info example_world)))\<close>
  by (simp add: CreateDataDirectory_def sql_defs example_defs file_defs Let_def
        version_unknown_env_def)

text \<open>
  C1. A stage that fails inside the transient instance does not reach the caller of
  \<open>Bootstrap\<close>: where \<open>CREATE USER\<close> is rejected, \<open>ConfigureApplicationEnvironment\<close>
  returns the engine's error and \<open>Bootstrap\<close> returns ok; where the superuser handle
  cannot be obtained, \<open>Bootstrap\<close> returns ok as well.
\<close>

theorem Bootstrap_returns_ok_on_failed_stage:
  \<open>fst (ConfigureApplicationEnvironment create_user_fails_env example_info SuperUserDB
          (record_call Startup
             (snd (CreateDataDirectory create_user_fails_env example_info example_world))))
     = Some (OSError ''role "app" already exists'')
   \<and> fst (Bootstrap create_user_fails_env example_info example_world) = None
   \<and> GetSuperUserDB open_db_fails_env (GetInstance example_info)
        (record_call Startup
           (snd (CreateDataDirectory open_db_fails_env example_info example_world)))
     = Inl (OSError ''connection refused'')
   \<and> fst (Bootstrap open_db_fails_env example_info example_world) = None\<close>
  by (simp add: CreateDataDirectory_def sql_defs example_defs file_defs Let_def
        create_user_fails_env_def open_db_fails_env_def)


lemma issue_files: "files (snd (issue E db qs w)) = files w"
  by (induction qs arbitrary: w) (auto simp: db_Exec_def split: option.splits)

lemma issue_ok_calls:
  "fst (issue E db qs w) = None \<Longrightarrow> calls (snd (issue E db qs w)) = calls w @ map Exec qs"
proof (induction qs arbitrary: w)
  case Nil
  then show ?case by simp
next
  case (Cons q qs)
  show ?case
  proof (cases "fault E (calls w) (Exec q)")
    case (Some err)
    with Cons.prems show ?thesis by (simp add: db_Exec_def)
  next
    case None
    then have eq: "issue E db (q # qs) w = issue E db qs (record_call (Exec q) w)"
      by (simp add: db_Exec_def)
    from Cons.prems have "fst (issue E db qs (record_call (Exec q) w)) = None"
      by (simp only: eq)
    from Cons.IH[OF this] show ?thesis by (simp only: eq) simp
  qed
qed

lemma ConfigureApplicationEnvironment_issue:
  "ConfigureApplicationEnvironment E info db w =
     (case issue E db [create_user_statement E info] w of
        (Some err, w1) \<Rightarrow> (Some err, w1)
      | (None, w1) \<Rightarrow>
          (case ReadFile E (ApplicationPasswordFile info) w1 of
             Inl err \<Rightarrow> (Some err, w1)
           | Inr password \<Rightarrow>
               issue E db [alter_user_password_statement E info password,
                           create_database_statement E info,
                           cluster_name_statement E info] w1))"
  by (simp add: ConfigureApplicationEnvironment_def create_user_statement_def
        alter_user_password_statement_def create_database_statement_def
        cluster_name_statement_def
      split: option.splits prod.splits sum.splits)

text \<open>
  C5 (amended). \<open>ConfigureApplicationEnvironment\<close> issues \<open>CREATE USER\<close>, reads the
  password file, then issues \<open>ALTER USER ... PASSWORD\<close>, \<open>CREATE DATABASE ... OWNER\<close>
  and \<open>ALTER SYSTEM SET cluster_name TO\<close>, in that order; the application user, the
  database and the cluster name are quoted with \<open>QuoteIdentifier\<close>, the password with
  \<open>QuoteLiteral\<close>. The first step that fails, the reading of the password file
  included, ends the sequence and its error is returned; when the operation succeeds
  exactly these four statements were issued.
\<close>

theorem ConfigureApplicationEnvironment_statements:
  "ConfigureApplicationEnvironment E info db w =
     (case issue E db [create_user_statement E info] w of
        (Some err, w1) \<Rightarrow> (Some err, w1)
      | (None, w1) \<Rightarrow>
          (case ReadFile E (ApplicationPasswordFile info) w1 of
             Inl err \<Rightarrow> (Some err, w1)
           | Inr password \<Rightarrow>
               issue E db [alter_user_password_statement E info password,
                           create_database_statement E info,
                           cluster_name_statement E info] w1))
   \<and> (fst (ConfigureApplicationEnvironment E info db w) = None \<longrightarrow>
        (\<exists>password.
           ReadFile E (ApplicationPasswordFile info)
             (record_call (Exec (create_user_statement E info)) w) = Inr password
           \<and> calls (snd (ConfigureApplicationEnvironment E info db w))
               = calls w @ [Exec (create_user_statement E info),
                            Exec (alter_user_password_statement E info password),
                            Exec (create_database_statement E info),
                            Exec (cluster_name_statement E info)]))"
proof (intro conjI impI)
  show "ConfigureApplicationEnvironment E info db w =
     (case issue E db [create_user_statement E info] w of
        (Some err, w1) \<Rightarrow> (Some err, w1)
      | (None, w1) \<Rightarrow>
          (case ReadFile E (ApplicationPasswordFile info) w1 of
             Inl err \<Rightarrow> (Some err, w1)
           | Inr password \<Rightarrow>
               issue E db [alter_user_password_statement E info password,
                           create_database_statement E info,
                           cluster_name_statement E info] w1))"
    by (rule ConfigureApplicationEnvironment_issue)
next
  assume ok: "fst (ConfigureApplicationEnvironment E info db w) = None"
  then show "\<exists>password.
           ReadFile E (ApplicationPasswordFile info)
             (record_call (Exec (create_user_statement E info)) w) = Inr password
           \<and> calls (snd (ConfigureApplicationEnvironment E info db w))
               = calls w @ [Exec (create_user_statement E info),
                            Exec (alter_user_password_statement E info password),
                            Exec (create_database_statement E info),
                            Exec (cluster_name_statement E info)]"
    unfolding ConfigureApplicationEnvironment_issue
    by (auto simp: db_Exec_def split: option.splits sum.splits)
qed



theorem ConfigureApplicationEnvironment_statements_witness:
  \<open>fst (ConfigureApplicationEnvironment example_env example_info SuperUserDB example_world) = None
   \<and> ReadFile example_env (ApplicationPasswordFile example_info)
         (record_call (Exec (create_user_statement example_env example_info)) example_world)
       = Inr ''apppass''
   \<and> calls (snd (ConfigureApplicationEnvironment example_env example_info SuperUserDB
                   example_world))
       = [Exec ''CREATE USER "app"'',
          Exec (''ALTER USER "app" PASSWORD 'apppass'' @ [CHR 0x27]),
          Exec ''CREATE DATABASE "appdb" OWNER "app"'',
          Exec ''ALTER SYSTEM SET cluster_name TO "pg"'']\<close>
proof -
  have ok: "fst (ConfigureApplicationEnvironment example_env example_info SuperUserDB
                   example_world) = None"
    by (simp add: sql_defs example_defs file_defs)
  have rd: "ReadFile example_env (ApplicationPasswordFile example_info)
         (record_call (Exec (create_user_statement example_env example_info)) example_world)
       = Inr ''apppass''"
    by (simp add: example_defs file_defs)
  from ConfigureApplicationEnvironment_statements
         [of example_env example_info SuperUserDB example_world, THEN conjunct2, rule_format, OF ok]
  obtain password where
    p: "ReadFile example_env (ApplicationPasswordFile example_info)
          (record_call (Exec (create_user_statement example_env example_info)) example_world)
        = Inr password"
    and c: "calls (snd (ConfigureApplicationEnvironment example_env example_info SuperUserDB
                          example_world))
        = calls example_world
          @ [Exec (create_user_statement example_env example_info),
             Exec (alter_user_password_statement example_env example_info password),
             Exec (create_database_statement example_env example_info),
             Exec (cluster_name_statement example_env example_info)]"
    by blast
  from p rd have pw: "password = ''apppass''" by simp
  have cw: "calls example_world = []"
    by (simp add: example_world_def)
  have s1: \<open>create_user_statement example_env example_info = ''CREATE USER "app"''\<close>
    by (simp add: create_user_statement_def example_env_def example_info_def
          pq_QuoteIdentifier_def)
  have s2: \<open>alter_user_password_statement example_env example_info ''apppass''
              = ''ALTER USER "app" PASSWORD 'apppass'' @ [CHR 0x27]\<close>
    by (simp add: alter_user_password_statement_def example_env_def example_info_def
          pq_QuoteIdentifier_def pq_QuoteLiteral_def)
  have s3: \<open>create_database_statement example_env example_info
              = ''CREATE DATABASE "appdb" OWNER "app"''\<close>
    by (simp add: create_database_statement_def example_env_def example_info_def
          pq_QuoteIdentifier_def)
  have s4: \<open>cluster_name_statement example_env example_info
              = ''ALTER SYSTEM SET cluster_name TO "pg"''\<close>
    by (simp add: cluster_name_statement_def example_env_def example_info_def
          pq_QuoteIdentifier_def)
  show ?thesis
    using ok rd c[unfolded pw cw s1 s2 s3 s4] by simp
qed

theorem ConfigureApplicationEnvironment_statements_counterexample:
  \<open>fst (ConfigureApplicationEnvironment example_env example_info SuperUserDB example_world) = None
   \<and> last (calls (snd (ConfigureApplicationEnvironment example_env example_info SuperUserDB
                         example_world)))
       = Exec ''ALTER SYSTEM SET cluster_name TO "pg"''
   \<and> QuoteLiteral example_env (ClusterName example_info) = [CHR 0x27] @ ''pg'' @ [CHR 0x27]
   \<and> Exec (''ALTER SYSTEM SET cluster_name TO ''
             @ QuoteLiteral example_env (ClusterName example_info))
       \<notin> set (calls (snd (ConfigureApplicationEnvironment example_env example_info SuperUserDB
                             example_world)))\<close>
  by (simp add: sql_defs example_defs file_defs)

text \<open>
  C7. \<open>ConfigureReplica\<close> issues \<open>ALTER SYSTEM SET primary_conninfo TO\<close> followed by
  the literal of the connection string \<open>host=<ParentNode> user=postgres dbname=postgres\<close>,
  and then \<open>ALTER SYSTEM SET recovery_target_timeline TO 'latest'\<close>; when the first
  statement fails its error is returned and the second is not issued.
\<close>

theorem ConfigureReplica_statements:
  "ConfigureReplica E info db w =
     (case fault E (calls w) (Exec (primary_conninfo_statement E info)) of
        Some err \<Rightarrow>
          (Some err, w\<lparr>calls := calls w @ [Exec (primary_conninfo_statement E info)]\<rparr>)
      | None \<Rightarrow>
          (fault E (calls w @ [Exec (primary_conninfo_statement E info)])
             (Exec recovery_target_timeline_statement),
           w\<lparr>calls := calls w @ [Exec (primary_conninfo_statement E info),
                                 Exec recovery_target_timeline_statement]\<rparr>))"
  by (simp add: ConfigureReplica_def db_Exec_def record_call_def Let_def
        primary_conninfo_statement_def recovery_target_timeline_statement_def
      split: option.splits)





end
